theory Spec2Isabelle
  imports Main "HOL-Library.Word"
begin

section \<open>PHP-CPP class registration: \<^verbatim>\<open>include/classbase.h\<close>\<close>

subsection \<open>Collaborator types\<close>

text \<open>
  A raw pointer is an address or \<^verbatim>\<open>nullptr\<close>: \<^term>\<open>None\<close> is \<^verbatim>\<open>nullptr\<close>.
\<close>

type_synonym addr = nat
type_synonym pointer = "addr option"

text \<open>
  \<^verbatim>\<open>const Arguments &args = {}\<close>: a brace-initialised sequence of argument descriptions.
  The class of the elements is declared in another header and this layer never looks
  inside one, so it is the type parameter \<open>'arg\<close> throughout.
\<close>

type_synonym 'arg Arguments = "'arg list"

subsection \<open>Method signatures (lines 25 to 28)\<close>

text \<open>
  The four typedefs are four distinct types of pointer to a member function of \<^verbatim>\<open>Base\<close>:
  \<^verbatim>\<open>void ()\<close>, \<^verbatim>\<open>void (Parameters &)\<close>, \<^verbatim>\<open>Value ()\<close> and \<^verbatim>\<open>Value (Parameters &)\<close>. This
  layer stores such a pointer and never calls through it; a value of each type is the
  address of the function it points to.
\<close>

datatype method_callback_0 = Method_callback_0 addr
datatype method_callback_1 = Method_callback_1 addr
datatype method_callback_2 = Method_callback_2 addr
datatype method_callback_3 = Method_callback_3 addr

subsection \<open>Flags, class types and the two descriptor classes\<close>

text \<open>
  Modelled from the spec: the constants \<^verbatim>\<open>Php::Public\<close>, \<^verbatim>\<open>Php::Protected\<close>, \<^verbatim>\<open>Php::Private\<close>,
  \<^verbatim>\<open>Php::Final\<close> and \<^verbatim>\<open>Php::Abstract\<close> are declared outside this header, which only names
  \<^verbatim>\<open>Php::Public\<close>. The spec (section 3) calls \<^verbatim>\<open>flags\<close> a bitset over these five; the
  \<^verbatim>\<open>int flags\<close> of the header is the set of the bits that are set, so \<^verbatim>\<open>0\<close> is the empty set.
\<close>

datatype flag = Php_Public | Php_Protected | Php_Private | Php_Final | Php_Abstract

type_synonym flags = "flag set"

definition visibility :: "flag set" where
  "visibility = {Php_Public, Php_Protected, Php_Private}"

text \<open>
  Modelled from the spec: the enumeration \<^verbatim>\<open>ClassType\<close> is declared outside this header,
  which only names \<^verbatim>\<open>ClassType::Regular\<close>. The spec (section 3) lists the kinds
  Regular, Abstract, Final and Interface.
\<close>

datatype ClassType =
  ClassType_Regular | ClassType_Abstract | ClassType_Final | ClassType_Interface

text \<open>
  Modelled from the spec: the class \<^verbatim>\<open>Method\<close> is only forward-declared here. The spec
  (section 3) gives a method descriptor a name, flags, an argument specification and a
  callback that is a tagged variant over the four shapes; an abstract method carries no
  callback.
\<close>

datatype callback =
  Callback_0 method_callback_0
| Callback_1 method_callback_1
| Callback_2 method_callback_2
| Callback_3 method_callback_3

record 'arg Method =
  method_name :: string
  method_callback :: "callback option"
  method_flags :: flags
  method_args :: "'arg Arguments"

text \<open>
  Modelled from the spec: the class \<^verbatim>\<open>Member\<close> is only forward-declared here. The spec
  (section 3) gives a member descriptor a name, flags and a default value that is a
  tagged variant over null, signed 16, 32 and 64 bit integers, boolean, single
  character, string and double. A double is kept as its 64 bits.
\<close>

datatype default_value =
  Default_null
| Default_int16 "16 word"
| Default_int32 "32 word"
| Default_int64 "64 word"
| Default_bool bool
| Default_char char
| Default_string string
| Default_double "64 word"

record Member =
  member_name :: string
  member_value :: default_value
  member_flags :: flags

subsection \<open>The class \<^verbatim>\<open>ClassBase\<close> (lines 39 to 206)\<close>

text \<open>
  The private data members, in the order of the header (lines 168 to 204): the field
  \<open>m_name\<close> is the member \<^verbatim>\<open>_name\<close>, and so on. The two lists hold shared
  pointers to descriptors that nothing changes once they are made, so a list of the
  descriptors themselves stands for them.
\<close>

record 'arg ClassBase =
  m_name :: string
  m_comment :: pointer
  m_type :: ClassType
  m_entry :: pointer
  m_entries :: pointer
  m_methods :: "'arg Method list"
  m_members :: "Member list"

text \<open>
  The protected constructor (line 47) initialises \<^verbatim>\<open>_name\<close> and \<^verbatim>\<open>_type\<close>; every other
  member takes its default member initialiser (\<^verbatim>\<open>nullptr\<close>, an empty list). An omitted
  \<^verbatim>\<open>type\<close> argument is \<^term>\<open>None\<close> and stands for \<^verbatim>\<open>ClassType::Regular\<close>.
\<close>

definition ClassBase_new :: "string \<Rightarrow> ClassType option \<Rightarrow> 'arg ClassBase" where
  "ClassBase_new classname type =
     \<lparr> m_name = classname,
       m_comment = None,
       m_type = (case type of None \<Rightarrow> ClassType_Regular | Some t \<Rightarrow> t),
       m_entry = None,
       m_entries = None,
       m_methods = [],
       m_members = [] \<rparr>"

text \<open>
  The copy constructor (lines 56 to 58) copies \<^verbatim>\<open>_name\<close>, \<^verbatim>\<open>_type\<close>, \<^verbatim>\<open>_methods\<close> and
  \<^verbatim>\<open>_members\<close> and sets \<^verbatim>\<open>_entry\<close> to \<^verbatim>\<open>nullptr\<close>; \<^verbatim>\<open>_comment\<close> and \<^verbatim>\<open>_entries\<close> are not in
  its initialiser list and take their default \<^verbatim>\<open>nullptr\<close>.
\<close>

definition ClassBase_copy :: "'arg ClassBase \<Rightarrow> 'arg ClassBase" where
  "ClassBase_copy that =
     \<lparr> m_name = m_name that,
       m_comment = None,
       m_type = m_type that,
       m_entry = None,
       m_entries = None,
       m_methods = m_methods that,
       m_members = m_members that \<rparr>"

text \<open>
  \<^verbatim>\<open>std::move\<close> into the move constructor of a \<^verbatim>\<open>std::string\<close> or a \<^verbatim>\<open>std::list\<close>: the new
  container takes the contents over. The C++ standard promises only that the old one is
  left in a valid state; libstdc++, libc++ and the Microsoft library all leave it empty,
  and that is what is modelled. The pair is the new container and what is left of the
  old one.
\<close>

definition std_move :: "'a list \<Rightarrow> 'a list \<times> 'a list" where
  "std_move xs = (xs, [])"

text \<open>
  The move constructor (lines 64 to 73) moves \<^verbatim>\<open>_name\<close>, \<^verbatim>\<open>_methods\<close> and \<^verbatim>\<open>_members\<close>,
  copies \<^verbatim>\<open>_type\<close> and \<^verbatim>\<open>_entry\<close>, and its body sets \<^verbatim>\<open>that._entry\<close> to \<^verbatim>\<open>nullptr\<close>.
  \<^verbatim>\<open>_comment\<close> and \<^verbatim>\<open>_entries\<close> are not mentioned: the new object takes their default
  \<^verbatim>\<open>nullptr\<close> and \<^verbatim>\<open>that\<close> keeps its own. The result is the new object and \<^verbatim>\<open>that\<close> as
  the constructor leaves it.
\<close>

definition ClassBase_move :: "'arg ClassBase \<Rightarrow> 'arg ClassBase \<times> 'arg ClassBase" where
  "ClassBase_move that =
     (let (name, name_left) = std_move (m_name that);
          (methods, methods_left) = std_move (m_methods that);
          (members, members_left) = std_move (m_members that)
      in (\<lparr> m_name = name,
            m_comment = None,
            m_type = m_type that,
            m_entry = m_entry that,
            m_entries = None,
            m_methods = methods,
            m_members = members \<rparr>,
          that\<lparr> m_name := name_left,
                m_methods := methods_left,
                m_members := members_left,
                m_entry := None \<rparr>))"

subsection \<open>Declaring methods (lines 115 to 127)\<close>

text \<open>
  \<^verbatim>\<open>method\<close> is declared five times: four declarations take a callback, one for each
  typedef, and the fifth takes none. The compiler picks the declaration from the type of
  the second argument; here the caller names it, with the callback it passes.
\<close>

datatype method_overload =
  Overload_0 method_callback_0
| Overload_1 method_callback_1
| Overload_2 method_callback_2
| Overload_3 method_callback_3
| Overload_abstract

fun overload_callback :: "method_overload \<Rightarrow> callback option" where
  "overload_callback (Overload_0 f) = Some (Callback_0 f)"
| "overload_callback (Overload_1 f) = Some (Callback_1 f)"
| "overload_callback (Overload_2 f) = Some (Callback_2 f)"
| "overload_callback (Overload_3 f) = Some (Callback_3 f)"
| "overload_callback Overload_abstract = None"

text \<open>
  Modelled from the spec: the bodies of the \<^verbatim>\<open>method\<close> overloads are not in this header.
  The spec (section 4.1) has each append a method descriptor, and this layer checks
  nothing at run time (section 7). The defaults are the header's: an omitted \<^verbatim>\<open>flags\<close> is
  \<^verbatim>\<open>0\<close>, an omitted \<^verbatim>\<open>args\<close> is \<^verbatim>\<open>{}\<close>; \<^term>\<open>None\<close> is an omitted argument. The first
  argument is the object the member function is called on, the result is that object
  afterwards. (\<^verbatim>\<open>method\<close> is a command of Isabelle, hence the name \<open>method_decl\<close>.)
\<close>

definition method_decl ::
  "'arg ClassBase \<Rightarrow> string \<Rightarrow> method_overload \<Rightarrow> flags option \<Rightarrow>
     'arg Arguments option \<Rightarrow> 'arg ClassBase"
where
  "method_decl this name ov flags args =
     this\<lparr> m_methods := m_methods this @
       [\<lparr> method_name = name,
          method_callback = overload_callback ov,
          method_flags = (case flags of None \<Rightarrow> {} | Some f \<Rightarrow> f),
          method_args = (case args of None \<Rightarrow> [] | Some a \<Rightarrow> a) \<rparr>] \<rparr>"

subsection \<open>Declaring properties (lines 142 to 150)\<close>

text \<open>
  \<^verbatim>\<open>property\<close> is declared nine times, once for each type of \<^verbatim>\<open>value\<close>, in this order:
  \<^verbatim>\<open>std::nullptr_t\<close>, \<^verbatim>\<open>int16_t\<close>, \<^verbatim>\<open>int32_t\<close>, \<^verbatim>\<open>int64_t\<close>, \<^verbatim>\<open>bool\<close>, \<^verbatim>\<open>char\<close>,
  \<^verbatim>\<open>const std::string &\<close>, \<^verbatim>\<open>const char *\<close> and \<^verbatim>\<open>double\<close>. A constructor is one declaration
  with the value passed to it.
\<close>

datatype property_value =
  Value_nullptr
| Value_int16 "16 word"
| Value_int32 "32 word"
| Value_int64 "64 word"
| Value_bool bool
| Value_char char
| Value_std_string string
| Value_c_string string
| Value_double "64 word"

text \<open>
  Modelled from the spec: the variant of the default value each declaration records
  (the bodies are not in this header). The spec (section 4.3) passes "the exact
  default-value variant"; both string types are text and record the string variant.
\<close>

fun property_default :: "property_value \<Rightarrow> default_value" where
  "property_default Value_nullptr = Default_null"
| "property_default (Value_int16 i) = Default_int16 i"
| "property_default (Value_int32 i) = Default_int32 i"
| "property_default (Value_int64 i) = Default_int64 i"
| "property_default (Value_bool b) = Default_bool b"
| "property_default (Value_char c) = Default_char c"
| "property_default (Value_std_string s) = Default_string s"
| "property_default (Value_c_string s) = Default_string s"
| "property_default (Value_double d) = Default_double d"

text \<open>
  Modelled from the spec: the bodies of the \<^verbatim>\<open>property\<close> overloads are not in this
  header. The spec (section 4.1) has each append a member descriptor. The default is
  the header's: an omitted \<^verbatim>\<open>flags\<close> is \<^verbatim>\<open>Php::Public\<close>.
\<close>

definition property ::
  "'arg ClassBase \<Rightarrow> string \<Rightarrow> property_value \<Rightarrow> flags option \<Rightarrow> 'arg ClassBase"
where
  "property this name val flags =
     this\<lparr> m_members := m_members this @
       [\<lparr> member_name = name,
          member_value = property_default val,
          member_flags = (case flags of None \<Rightarrow> {Php_Public} | Some f \<Rightarrow> f) \<rparr>] \<rparr>"

subsection \<open>The descriptor table (line 162)\<close>

text \<open>
  Modelled from the spec: \<^verbatim>\<open>struct _zend_function_entry\<close> belongs to the engine and the
  body of \<^verbatim>\<open>entries\<close> is not in this header. The spec (section 4.2) describes a row as
  the name of the method, a trampoline chosen by the tag of the callback (none for an
  abstract method, section 8), the flags and the argument specification, and the table
  as one row for each method in the order of declaration, closed by a sentinel row.
\<close>

datatype trampoline = Trampoline_0 | Trampoline_1 | Trampoline_2 | Trampoline_3

fun select_trampoline :: "callback \<Rightarrow> trampoline" where
  "select_trampoline (Callback_0 f) = Trampoline_0"
| "select_trampoline (Callback_1 f) = Trampoline_1"
| "select_trampoline (Callback_2 f) = Trampoline_2"
| "select_trampoline (Callback_3 f) = Trampoline_3"

datatype 'arg zend_function_entry =
  Entry string "trampoline option" flags "'arg Arguments"
| Sentinel

definition lower :: "'arg Method \<Rightarrow> 'arg zend_function_entry" where
  "lower m = Entry (method_name m) (map_option select_trampoline (method_callback m))
                   (method_flags m) (method_args m)"

text \<open>
  The arrays allocated so far, each at the address that is its position: allocating
  appends one, and its address is the number of arrays there were.
\<close>

type_synonym 'arg heap = "'arg zend_function_entry list list"

text \<open>
  Modelled from the spec: \<^verbatim>\<open>entries\<close> returns the cached table when \<^verbatim>\<open>_entries\<close> is set;
  otherwise it allocates the table, fills it from \<^verbatim>\<open>_methods\<close>, stores the pointer in
  \<^verbatim>\<open>_entries\<close> and returns it (section 4.2: "repeated calls return the cached table
  without rebuilding"). The result is the pointer returned, the object and the heap
  afterwards.
\<close>

definition entries ::
  "'arg ClassBase \<Rightarrow> 'arg heap \<Rightarrow> addr \<times> 'arg ClassBase \<times> 'arg heap"
where
  "entries this h =
     (case m_entries this of
        Some p \<Rightarrow> (p, this, h)
      | None \<Rightarrow>
          (length h,
           this\<lparr> m_entries := Some (length h) \<rparr>,
           h @ [map lower (m_methods this) @ [Sentinel]]))"

text \<open>One more call of \<^verbatim>\<open>entries\<close> on the object and heap a call has left.\<close>

definition entries_again ::
  "addr \<times> 'arg ClassBase \<times> 'arg heap \<Rightarrow> addr \<times> 'arg ClassBase \<times> 'arg heap"
where
  "entries_again r = entries (fst (snd r)) (snd (snd r))"

section \<open>Copy and move\<close>

lemma ClassBase_move_eq:
  "ClassBase_move that =
     (\<lparr> m_name = m_name that, m_comment = None, m_type = m_type that,
        m_entry = m_entry that, m_entries = None,
        m_methods = m_methods that, m_members = m_members that \<rparr>,
      that\<lparr> m_name := [], m_methods := [], m_members := [], m_entry := None \<rparr>)"
  by (simp add: ClassBase_move_def std_move_def)

text \<open>
  Claim C1. Moving a ClassBase hands the engine class-entry handle to the new object
  and empties the source's: the new object's \<^verbatim>\<open>_entry\<close> is the one the source held before
  the move, and the source's \<^verbatim>\<open>_entry\<close> is \<^verbatim>\<open>nullptr\<close> afterwards.
\<close>

theorem move_transfers_entry:
  "m_entry (fst (ClassBase_move that)) = m_entry that \<and>
   m_entry (snd (ClassBase_move that)) = None"
  by (simp add: ClassBase_move_eq)

text \<open>
  Claim C2. Copy-constructing from any ClassBase, initialised or not, table built or
  not, gives an object with the same name, type, methods and members, no engine handle
  and no cached descriptor table.
\<close>

theorem copy_duplicates_declarations:
  "m_name (ClassBase_copy that) = m_name that \<and>
   m_type (ClassBase_copy that) = m_type that \<and>
   m_methods (ClassBase_copy that) = m_methods that \<and>
   m_members (ClassBase_copy that) = m_members that \<and>
   m_entry (ClassBase_copy that) = None \<and>
   m_entries (ClassBase_copy that) = None"
  by (simp add: ClassBase_copy_def)

text \<open>
  Claim C10. Of the three raw pointers, a move hands over the engine class-entry handle
  only: the new object starts with no cached descriptor table and no comment, and the
  moved-from object keeps the \<^verbatim>\<open>_entries\<close> and \<^verbatim>\<open>_comment\<close> pointers it had, neither
  transferred nor cleared.
\<close>

theorem move_keeps_table_and_comment:
  "m_entry (fst (ClassBase_move that)) = m_entry that \<and>
   m_entries (fst (ClassBase_move that)) = None \<and>
   m_comment (fst (ClassBase_move that)) = None \<and>
   m_entries (snd (ClassBase_move that)) = m_entries that \<and>
   m_comment (snd (ClassBase_move that)) = m_comment that"
  by (simp add: ClassBase_move_eq)

text \<open>
  Claim C3 as it is stated does not hold: a ClassBase built with the name
  \<^verbatim>\<open>"Counter"\<close> and then moved from is left with the empty name, because the move
  constructor moves \<^verbatim>\<open>_name\<close> out of it.
\<close>

theorem moved_from_name_counterexample:
  "m_name (ClassBase_new ''Counter'' None :: unit ClassBase) = ''Counter'' \<and>
   m_name (snd (ClassBase_move (ClassBase_new ''Counter'' None :: unit ClassBase))) = []"
  by (simp add: ClassBase_new_def ClassBase_move_eq)

text \<open>
  Claim C3, amended. The name of a ClassBase is the string its constructor was given,
  whatever it is (nothing checks that it is not empty). A copy has the name of its
  source; the new object of a move has the name its source had, and the moved-from
  source is left with the empty name. Declaring a method or a property and building
  the descriptor table leave the name as it is.
\<close>

theorem name_under_operations:
  "m_name (ClassBase_new classname type) = classname \<and>
   m_name (ClassBase_copy this) = m_name this \<and>
   m_name (fst (ClassBase_move this)) = m_name this \<and>
   m_name (snd (ClassBase_move this)) = [] \<and>
   m_name (method_decl this mname ov mflags args) = m_name this \<and>
   m_name (property this pname val pflags) = m_name this \<and>
   m_name (fst (snd (entries this h))) = m_name this"
  by (simp add: ClassBase_new_def ClassBase_copy_def ClassBase_move_eq method_decl_def
      property_def entries_def split: option.split)

section \<open>The declaration interface\<close>

lemma overload_callback_Some:
  "overload_callback ov = Some cb \<longleftrightarrow>
     (case cb of
        Callback_0 f \<Rightarrow> ov = Overload_0 f
      | Callback_1 f \<Rightarrow> ov = Overload_1 f
      | Callback_2 f \<Rightarrow> ov = Overload_2 f
      | Callback_3 f \<Rightarrow> ov = Overload_3 f)"
  by (cases ov; cases cb) auto

text \<open>
  Claim C4. A callback that a method descriptor carries has one of the four shapes of
  the typedefs, each a pointer to a member function of \<^verbatim>\<open>Base\<close>, and for each shape there
  is exactly one declaration of \<^verbatim>\<open>method\<close> that takes a callback of it: every callback is
  what exactly one call of a callback-taking declaration records, and the declaration
  for the typedef numbered k records the shape numbered k.
\<close>

theorem one_overload_per_callback_shape:
  "(\<exists>!ov. overload_callback ov = Some cb) \<and>
   ((\<exists>f. cb = Callback_0 f) \<or> (\<exists>f. cb = Callback_1 f) \<or>
    (\<exists>f. cb = Callback_2 f) \<or> (\<exists>f. cb = Callback_3 f)) \<and>
   overload_callback (Overload_0 f0) = Some (Callback_0 f0) \<and>
   overload_callback (Overload_1 f1) = Some (Callback_1 f1) \<and>
   overload_callback (Overload_2 f2) = Some (Callback_2 f2) \<and>
   overload_callback (Overload_3 f3) = Some (Callback_3 f3)"
  by (cases cb) (auto simp: overload_callback_Some)

lemma property_default_string:
  "{v. property_default v = Default_string s} = {Value_std_string s, Value_c_string s}"
proof -
  have "property_default v = Default_string s \<longleftrightarrow>
          v = Value_std_string s \<or> v = Value_c_string s" for v
    by (cases v) auto
  then show ?thesis by auto
qed

lemma property_default_other:
  assumes "\<forall>s. d \<noteq> Default_string s"
  shows "\<exists>v. {w. property_default w = d} = {v}"
proof (cases d)
  case Default_null
  have "property_default w = Default_null \<longleftrightarrow> w = Value_nullptr" for w
    by (cases w) auto
  with Default_null show ?thesis by auto
next
  case (Default_int16 x)
  have "property_default w = Default_int16 x \<longleftrightarrow> w = Value_int16 x" for w
    by (cases w) auto
  with Default_int16 show ?thesis by auto
next
  case (Default_int32 x)
  have "property_default w = Default_int32 x \<longleftrightarrow> w = Value_int32 x" for w
    by (cases w) auto
  with Default_int32 show ?thesis by auto
next
  case (Default_int64 x)
  have "property_default w = Default_int64 x \<longleftrightarrow> w = Value_int64 x" for w
    by (cases w) auto
  with Default_int64 show ?thesis by auto
next
  case (Default_bool x)
  have "property_default w = Default_bool x \<longleftrightarrow> w = Value_bool x" for w
    by (cases w) auto
  with Default_bool show ?thesis by auto
next
  case (Default_char x)
  have "property_default w = Default_char x \<longleftrightarrow> w = Value_char x" for w
    by (cases w) auto
  with Default_char show ?thesis by auto
next
  case (Default_string x)
  with assms show ?thesis by simp
next
  case (Default_double x)
  have "property_default w = Default_double x \<longleftrightarrow> w = Value_double x" for w
    by (cases w) auto
  with Default_double show ?thesis by auto
qed

text \<open>
  Claim C5 as it is stated does not hold: the string variant has two declarations,
  the one that takes \<^verbatim>\<open>const std::string &\<close> (line 148) and the one that takes
  \<^verbatim>\<open>const char *\<close> (line 149). Two different calls record the same default value.
\<close>

theorem two_string_overloads_counterexample:
  "property_default (Value_std_string ''a'') = Default_string ''a'' \<and>
   property_default (Value_c_string ''a'') = Default_string ''a'' \<and>
   Value_std_string ''a'' \<noteq> Value_c_string ''a''"
  by simp

text \<open>
  Claim C5, amended. \<^verbatim>\<open>property\<close> has exactly one declaration for each of the variants
  null, signed 16, 32 and 64 bit, boolean, single character and double, and exactly two
  for the string variant; every declaration records one of these eight variants. So a
  default value of the string variant is recorded by two calls, any other by one.
\<close>

theorem property_overloads_per_variant:
  "card {v. property_default v = d} = (case d of Default_string s \<Rightarrow> 2 | _ \<Rightarrow> 1)"
proof (cases "\<exists>s. d = Default_string s")
  case True
  then obtain s where "d = Default_string s" by blast
  then show ?thesis by (simp add: property_default_string)
next
  case False
  then obtain v where "{w. property_default w = d} = {v}"
    using property_default_other by blast
  with False show ?thesis by (cases d) simp_all
qed

text \<open>
  Claim C7. The declaration of \<^verbatim>\<open>method\<close> that takes a name, flags and an argument
  specification and no callback appends one method descriptor, and that descriptor
  carries no callback.
\<close>

theorem abstract_method_has_no_callback:
  "method_decl this name Overload_abstract flags args =
     this\<lparr> m_methods := m_methods this @
       [\<lparr> method_name = name, method_callback = None,
          method_flags = (case flags of None \<Rightarrow> {} | Some f \<Rightarrow> f),
          method_args = (case args of None \<Rightarrow> [] | Some a \<Rightarrow> a) \<rparr>] \<rparr>"
  by (simp add: method_decl_def)

text \<open>
  Claim C9. A property declared without the flags argument is recorded with the flags
  \<^verbatim>\<open>Php::Public\<close>, so with public visibility; a method declared without the flags
  argument, by any of the five declarations, is recorded with the flags \<^verbatim>\<open>0\<close>, so with
  no visibility bit.
\<close>

theorem default_flags:
  "m_members (property this pname val None) =
     m_members this @
       [\<lparr> member_name = pname, member_value = property_default val,
          member_flags = {Php_Public} \<rparr>] \<and>
   m_methods (method_decl this mname ov None args) =
     m_methods this @
       [\<lparr> method_name = mname, method_callback = overload_callback ov,
          method_flags = {},
          method_args = (case args of None \<Rightarrow> [] | Some a \<Rightarrow> a) \<rparr>] \<and>
   member_flags (last (m_members (property this pname val None))) \<inter> visibility =
     {Php_Public} \<and>
   method_flags (last (m_methods (method_decl this mname ov None args))) \<inter> visibility = {}"
  by (simp add: property_def method_decl_def visibility_def)

section \<open>The cached descriptor table\<close>

lemma entries_cached:
  "m_entries this = Some p \<Longrightarrow> entries this h = (p, this, h)"
  by (simp add: entries_def)

lemma entries_sets_pointer:
  "m_entries (fst (snd (entries this h))) = Some (fst (entries this h))"
  by (simp add: entries_def split: option.split)

lemma entries_again_fixed:
  "entries_again (entries this h) = entries this h"
proof -
  obtain p this' h' where r: "entries this h = (p, this', h')"
    by (cases "entries this h") auto
  have "m_entries this' = Some p"
    using entries_sets_pointer [of this h] by (simp add: r)
  then have "entries this' h' = (p, this', h')"
    by (rule entries_cached)
  then show ?thesis
    by (simp add: entries_again_def r)
qed

lemma entries_again_funpow:
  "(entries_again ^^ k) (entries this h) = entries this h"
  by (induction k) (simp_all add: entries_again_fixed)

lemma entries_later:
  "entries (fst (snd (entries this h))) h' =
     (fst (entries this h), fst (snd (entries this h)), h')"
  using entries_sets_pointer [of this h] by (rule entries_cached)

text \<open>
  Claim C6. \<^verbatim>\<open>entries\<close> is idempotent. A new ClassBase has no table, and declaring
  methods and properties does not make one. The first call allocates the table, one
  row for each method and the sentinel, and stores its address in \<^verbatim>\<open>_entries\<close>. After
  any call the object holds the pointer that call returned; any number of further
  calls return that same pointer and leave the object and the heap as they were, and
  so does a later call whatever has been allocated in between.
\<close>

theorem entries_idempotent:
  "m_entries (ClassBase_new classname type) = None \<and>
   m_entries (method_decl this mname ov mflags args) = m_entries this \<and>
   m_entries (property this pname val pflags) = m_entries this \<and>
   entries (this\<lparr> m_entries := None \<rparr>) h =
     (length h, this\<lparr> m_entries := Some (length h) \<rparr>,
      h @ [map lower (m_methods this) @ [Sentinel]]) \<and>
   m_entries (fst (snd (entries this h))) = Some (fst (entries this h)) \<and>
   (entries_again ^^ k) (entries this h) = entries this h \<and>
   entries (fst (snd (entries this h))) h' =
     (fst (entries this h), fst (snd (entries this h)), h')"
  by (simp add: ClassBase_new_def method_decl_def property_def entries_again_funpow
      entries_sets_pointer entries_later) (simp add: entries_def)

end
